theory Spec2Isabelle
  imports Main
begin

section \<open>Python values used by the remote-build protocol\<close>

text \<open>
  The messages exchanged with the \<open>launch_binaries\<close> daemon are JSON objects whose
  values are strings or integers. A Python \<open>dict\<close> literal is kept as an association
  list in the order in which the source writes its keys; \<open>d[k]\<close> raises
  \<open>KeyError\<close> when the key is absent.

  The exceptions that can leave the protocol functions: \<open>KeyError\<close> from a subscript,
  \<open>zmq.ZMQError\<close> with its error number from the socket calls, and
  \<open>json.JSONDecodeError\<close> from \<open>recv_json\<close> on a message that is not JSON.
\<close>

datatype json = JStr string | JInt int

type_synonym pydict = "(string \<times> json) list"

datatype zmq_errno = EFSM | EINVAL | ETERM | EINTR

datatype py_error = KeyError string | ZMQError zmq_errno | JSONDecodeError

definition getitem :: "(string \<times> 'v) list \<Rightarrow> string \<Rightarrow> py_error + 'v" where
  "getitem d k = (case map_of d k of None \<Rightarrow> Inl (KeyError k) | Some v \<Rightarrow> Inr v)"

section \<open>Platform lookup tables (\<open>tdw/backend/platforms.py\<close>)\<close>

definition SYSTEM_TO_S3 :: "(string \<times> string) list" where
  "SYSTEM_TO_S3 = [(''Windows'', ''windows''),
                   (''Darwin'', ''osx''),
                   (''Linux'', ''linux'')]"

definition S3_TO_UNITY :: "(string \<times> string) list" where
  "S3_TO_UNITY = [(''windows'', ''StandaloneWindows64''),
                  (''osx'', ''StandaloneOSX''),
                  (''linux'', ''StandaloneLinux64'')]"

definition SYSTEM_TO_UNITY :: "(string \<times> string) list" where
  "SYSTEM_TO_UNITY = [(''Windows'', ''StandaloneWindows64''),
                      (''Darwin'', ''StandaloneOSX''),
                      (''Linux'', ''StandaloneLinux64'')]"

definition UNITY_TO_SYSTEM :: "(string \<times> string) list" where
  "UNITY_TO_SYSTEM = [(''StandaloneWindows64'', ''Windows''),
                      (''StandaloneOSX'', ''Darwin''),
                      (''StandaloneLinux64'', ''Linux'')]"

definition system_names :: "string list" where
  "system_names = [''Windows'', ''Darwin'', ''Linux'']"

definition unity_targets :: "string list" where
  "unity_targets = [''StandaloneWindows64'', ''StandaloneOSX'', ''StandaloneLinux64'']"

text \<open>\<open>B[A[k]]\<close>: two subscripts in a row, the first \<open>KeyError\<close> wins.\<close>

definition getitem2 ::
  "(string \<times> string) list \<Rightarrow> (string \<times> 'v) list \<Rightarrow> string \<Rightarrow> py_error + 'v" where
  "getitem2 a b k = (case getitem a k of Inl e \<Rightarrow> Inl e | Inr v \<Rightarrow> getitem b v)"

section \<open>The ZeroMQ request socket and its environment\<close>

text \<open>
  \<open>launch_build\<close> creates one \<open>zmq.REQ\<close> socket and hands it to the keep-alive
  thread. The record below is that socket together with what surrounds it:
  \<^item> \<open>clock\<close>: the time in seconds;
  \<^item> \<open>trace\<close>: everything done on the socket so far, oldest first, each entry with
    the time at which it happened;
  \<^item> \<open>inbox\<close>: what the daemon will answer, in order. \<open>Reply d r\<close> is the JSON
    object \<open>r\<close> arriving \<open>d\<close> seconds after \<open>recv_json\<close> is entered,
    \<open>Garbage d\<close> is a message arriving that is not JSON, \<open>Failure d e\<close> is
    \<open>recv_json\<close> raising \<open>zmq.ZMQError\<close> with error number \<open>e\<close> after \<open>d\<close>
    seconds. The source sets no receive timeout, so with nothing left in the inbox
    \<open>recv_json\<close> never returns;
  \<^item> \<open>awaiting\<close>: the state of the \<open>REQ\<close> socket. A request socket alternates
    strictly: while the reply to a request is outstanding a further send is refused, and
    a receive is refused when no request is outstanding; both raise \<open>ZMQError\<close> with
    \<open>EFSM\<close>. A failed receive leaves the request outstanding;
  \<^item> \<open>accepts\<close>: the endpoints that ZeroMQ can parse. \<open>connect\<close> raises
    \<open>ZMQError\<close> with \<open>EINVAL\<close> on any other string. Which strings these are is
    decided inside the library and is taken as given.

  \<open>connect\<close> on an endpoint that parses and \<open>send_json\<close> on an idle socket only
  queue work and return at once; a daemon that cannot be reached shows as an inbox that
  stays empty.
\<close>

datatype action =
    Connect string
  | Send pydict
  | Recv pydict
  | RecvGarbage
  | RecvFailed
  | Sleep nat

datatype incoming = Reply nat pydict | Garbage nat | Failure nat zmq_errno

record world =
  clock :: nat
  trace :: "(nat \<times> action) list"
  inbox :: "incoming list"
  awaiting :: bool
  accepts :: "string \<Rightarrow> bool"

text \<open>
  How a call ends: it returns a value, an exception leaves it, or it never returns.
\<close>

datatype 'a outcome = Returns 'a | Raises py_error | Blocks

definition emit :: "action \<Rightarrow> world \<Rightarrow> world" where
  "emit a w = w\<lparr>trace := trace w @ [(clock w, a)]\<rparr>"

text \<open>\<open>context.socket(zmq.REQ)\<close>: a new socket has no request outstanding.\<close>

definition new_socket :: "world \<Rightarrow> world" where
  "new_socket w = w\<lparr>awaiting := False\<rparr>"

definition connect :: "string \<Rightarrow> world \<Rightarrow> unit outcome \<times> world" where
  "connect url w =
     (if accepts w url then (Returns (), emit (Connect url) w)
      else (Raises (ZMQError EINVAL), w))"

definition send_json :: "pydict \<Rightarrow> world \<Rightarrow> unit outcome \<times> world" where
  "send_json msg w =
     (if awaiting w then (Raises (ZMQError EFSM), w)
      else (Returns (), (emit (Send msg) w)\<lparr>awaiting := True\<rparr>))"

definition recv_json :: "world \<Rightarrow> pydict outcome \<times> world" where
  "recv_json w =
     (if \<not> awaiting w then (Raises (ZMQError EFSM), w)
      else case inbox w of
        [] \<Rightarrow> (Blocks, w)
      | Reply d r # rest \<Rightarrow>
          (Returns r,
           emit (Recv r) (w\<lparr>clock := clock w + d, inbox := rest, awaiting := False\<rparr>))
      | Garbage d # rest \<Rightarrow>
          (Raises JSONDecodeError,
           emit RecvGarbage (w\<lparr>clock := clock w + d, inbox := rest, awaiting := False\<rparr>))
      | Failure d e # rest \<Rightarrow>
          (Raises (ZMQError e), emit RecvFailed (w\<lparr>clock := clock w + d, inbox := rest\<rparr>)))"

text \<open>\<open>time.sleep(n)\<close>: the entry is stamped with the time at which the sleep begins.\<close>

definition sleep :: "nat \<Rightarrow> world \<Rightarrow> world" where
  "sleep n w = (emit (Sleep n) w)\<lparr>clock := clock w + n\<rparr>"

subsection \<open>\<open>"%s" % listener_port\<close>\<close>

fun str_nat :: "nat \<Rightarrow> string" where
  "str_nat n =
     (if n < 10 then [''0123456789'' ! n]
      else str_nat (n div 10) @ [''0123456789'' ! (n mod 10)])"

definition str_int :: "int \<Rightarrow> string" where
  "str_int i = (if i < 0 then CHR ''-'' # str_nat (nat (- i)) else str_nat (nat i))"

section \<open>The protocol functions of \<open>TDWUtils\<close>\<close>

definition start_request :: "string \<Rightarrow> pydict" where
  "start_request controller_address =
     [(''type'', JStr ''start_build''), (''controller_address'', JStr controller_address)]"

definition keep_alive_request :: "json \<Rightarrow> pydict" where
  "keep_alive_request build_port = [(''type'', JStr ''keep_alive''), (''build_port'', build_port)]"

definition kill_request :: "json \<Rightarrow> pydict" where
  "kill_request build_port = [(''type'', JStr ''kill_build''), (''build_port'', build_port)]"

text \<open>
  \<open>socket.send_json(request)\<close> followed by \<open>socket.recv_json()\<close>: the receive is
  reached only when the send has returned.
\<close>

definition exchange :: "pydict \<Rightarrow> world \<Rightarrow> pydict outcome \<times> world" where
  "exchange request w =
     (case send_json request w of
        (Returns u, w1) \<Rightarrow> recv_json w1
      | (Raises e, w1) \<Rightarrow> (Raises e, w1)
      | (Blocks, w1) \<Rightarrow> (Blocks, w1))"

definition send_start_build :: "world \<Rightarrow> string \<Rightarrow> pydict outcome \<times> world" where
  "send_start_build w controller_address =
     (let request = start_request controller_address
      in exchange request w)"

definition send_keep_alive :: "world \<Rightarrow> pydict \<Rightarrow> pydict outcome \<times> world" where
  "send_keep_alive w build_info =
     (case getitem build_info ''build_port'' of
        Inl e \<Rightarrow> (Raises e, w)
      | Inr build_port \<Rightarrow>
          (let request = keep_alive_request build_port
           in exchange request w))"

definition send_kill_build :: "world \<Rightarrow> pydict \<Rightarrow> pydict outcome \<times> world" where
  "send_kill_build w build_info =
     (case getitem build_info ''build_port'' of
        Inl e \<Rightarrow> (Raises e, w)
      | Inr build_port \<Rightarrow>
          (let request = kill_request build_port
           in exchange request w))"

text \<open>
  One pass through the body of \<open>while True\<close> in \<open>_keep_alive_thread\<close>:
  the keep-alive exchange, then \<open>time.sleep(60)\<close>.
\<close>

definition keep_alive_iteration :: "world \<Rightarrow> pydict \<Rightarrow> unit outcome \<times> world" where
  "keep_alive_iteration w build_info =
     (case send_keep_alive w build_info of
        (Returns heartbeat, w1) \<Rightarrow> (Returns (), sleep 60 w1)
      | (Raises e, w1) \<Rightarrow> (Raises e, w1)
      | (Blocks, w1) \<Rightarrow> (Blocks, w1))"

lemma recv_json_inbox:
  "recv_json w = (Returns r, w') \<Longrightarrow> length (inbox w') < length (inbox w)"
  by (auto simp: recv_json_def emit_def split: if_splits list.splits incoming.splits)

lemma exchange_inbox:
  "exchange request w = (Returns r, w') \<Longrightarrow> length (inbox w') < length (inbox w)"
  by (auto simp: exchange_def send_json_def emit_def
           dest!: recv_json_inbox split: if_splits)

lemma send_keep_alive_inbox:
  "send_keep_alive w build_info = (Returns r, w') \<Longrightarrow> length (inbox w') < length (inbox w)"
  by (auto simp: send_keep_alive_def Let_def dest!: exchange_inbox split: sum.splits)

lemma keep_alive_iteration_inbox:
  "keep_alive_iteration w build_info = (Returns u, w') \<Longrightarrow>
     length (inbox w') < length (inbox w)"
  by (auto simp: keep_alive_iteration_def sleep_def emit_def
           dest!: send_keep_alive_inbox split: prod.splits outcome.splits)

text \<open>
  \<open>_keep_alive_thread\<close>: the loop has no exit of its own. It goes on for as long as
  the daemon answers; it ends when an exception leaves the body, and it stays in
  \<open>recv_json\<close> for ever once the daemon is silent.
\<close>

function keep_alive_thread :: "world \<Rightarrow> pydict \<Rightarrow> unit outcome \<times> world" where
  "keep_alive_thread w build_info =
     (case keep_alive_iteration w build_info of
        (Returns u, w1) \<Rightarrow> keep_alive_thread w1 build_info
      | (Raises e, w1) \<Rightarrow> (Raises e, w1)
      | (Blocks, w1) \<Rightarrow> (Blocks, w1))"
  by pat_completeness auto
termination
  by (relation "measure (\<lambda>(w, build_info). length (inbox w))")
     (auto dest: keep_alive_iteration_inbox [OF sym])

text \<open>
  \<open>launch_build\<close>. Besides what the call gives its caller, the result carries the
  argument of the daemon thread it has started (\<open>None\<close> when the call ended before
  \<open>thread.start()\<close>); the thread then runs \<open>keep_alive_thread\<close> on the same socket.
\<close>

definition launch_build ::
  "world \<Rightarrow> int \<Rightarrow> string \<Rightarrow> string \<Rightarrow> pydict outcome \<times> world \<times> pydict option" where
  "launch_build w listener_port build_address controller_address =
     (let socket = new_socket w
      in case connect (''tcp://'' @ build_address @ '':'' @ str_int listener_port) socket of
           (Raises e, w1) \<Rightarrow> (Raises e, w1, None)
         | (Blocks, w1) \<Rightarrow> (Blocks, w1, None)
         | (Returns u, w1) \<Rightarrow>
             (case send_start_build w1 controller_address of
                (Returns build_info, w2) \<Rightarrow> (Returns build_info, w2, Some build_info)
              | (Raises e, w2) \<Rightarrow> (Raises e, w2, None)
              | (Blocks, w2) \<Rightarrow> (Blocks, w2, None)))"

section \<open>Reading a trace\<close>

fun sent_msgs :: "(nat \<times> action) list \<Rightarrow> pydict list" where
  "sent_msgs [] = []"
| "sent_msgs ((t, Send m) # xs) = m # sent_msgs xs"
| "sent_msgs (_ # xs) = sent_msgs xs"

fun send_times :: "(nat \<times> action) list \<Rightarrow> nat list" where
  "send_times [] = []"
| "send_times ((t, Send m) # xs) = t # send_times xs"
| "send_times (_ # xs) = send_times xs"

text \<open>What a call has added to the trace.\<close>

definition added :: "world \<Rightarrow> world \<Rightarrow> (nat \<times> action) list" where
  "added w w' = drop (length (trace w)) (trace w')"

text \<open>Consecutive times are at least \<open>i\<close> apart.\<close>

fun spaced :: "nat \<Rightarrow> nat list \<Rightarrow> bool" where
  "spaced i (a # b # xs) = (a + i \<le> b \<and> spaced i (b # xs))"
| "spaced i xs = True"

text \<open>
  Request and reply alternate: nothing is sent while an answer is still awaited
  (\<open>busy\<close>), and nothing is received that was not asked for.
\<close>

fun one_in_flight :: "bool \<Rightarrow> (nat \<times> action) list \<Rightarrow> bool" where
  "one_in_flight busy [] = True"
| "one_in_flight busy ((t, Send m) # xs) = (\<not> busy \<and> one_in_flight True xs)"
| "one_in_flight busy ((t, Recv r) # xs) = (busy \<and> one_in_flight False xs)"
| "one_in_flight busy ((t, RecvGarbage) # xs) = (busy \<and> one_in_flight False xs)"
| "one_in_flight busy ((t, RecvFailed) # xs) = (busy \<and> one_in_flight False xs)"
| "one_in_flight busy (_ # xs) = one_in_flight busy xs"


definition is_kill_build :: "pydict \<Rightarrow> bool" where
  "is_kill_build m = (getitem m ''type'' = Inr (JStr ''kill_build''))"

section \<open>Send times\<close>

text \<open>
  The heartbeat of the specification runs on a fixed period: \<open>n\<close> sends that start at
  \<open>t\<close> are due at \<open>t\<close>, \<open>t + interval\<close>, \<open>t + 2 * interval\<close> and so on.
\<close>

definition fixed_period :: "nat \<Rightarrow> nat \<Rightarrow> nat \<Rightarrow> nat list" where
  "fixed_period interval t n = map (\<lambda>k. t + k * interval) [0..<n]"

text \<open>The times that start at \<open>t\<close> and lie the given gaps apart.\<close>

fun from_gaps :: "nat \<Rightarrow> nat list \<Rightarrow> nat list" where
  "from_gaps t [] = [t]"
| "from_gaps t (g # gs) = t # from_gaps (t + g) gs"

section \<open>The passes of the keep-alive loop, written out\<close>

text \<open>
  What the loop of \<open>_keep_alive_thread\<close> leaves in the trace when it starts at time
  \<open>t\<close> and the daemon answers with the replies \<open>rs\<close>, each given with the time it
  takes to arrive: a pass is the request, the reply and the sleep, and the pass after it
  begins when the sleep is over. \<open>passes_end\<close> is the time at which the pass after the
  last of them begins. The loop is shown to behave so below.
\<close>

fun passes :: "json \<Rightarrow> nat \<Rightarrow> (nat \<times> pydict) list \<Rightarrow> (nat \<times> action) list" where
  "passes port t [] = []"
| "passes port t ((d, r) # rs) =
     (t, Send [(''type'', JStr ''keep_alive''), (''build_port'', port)]) #
     (t + d, Recv r) #
     (t + d, Sleep 60) #
     passes port (t + d + 60) rs"

fun passes_end :: "nat \<Rightarrow> (nat \<times> pydict) list \<Rightarrow> nat" where
  "passes_end t [] = t"
| "passes_end t ((d, r) # rs) = passes_end (t + d + 60) rs"

definition replies :: "(nat \<times> pydict) list \<Rightarrow> incoming list" where
  "replies rs = map (\<lambda>(d, r). Reply d r) rs"

section \<open>A program that launches a build\<close>

text \<open>
  \<open>session\<close> is a controller's call of \<open>launch_build\<close> followed by the whole life of
  the daemon thread that the call has started: what the caller got, how the thread
  ended (\<open>None\<close>: no thread was started), and the socket at the end.
\<close>

definition session ::
  "world \<Rightarrow> int \<Rightarrow> string \<Rightarrow> string \<Rightarrow> pydict outcome \<times> unit outcome option \<times> world" where
  "session w listener_port build_address controller_address =
     (case launch_build w listener_port build_address controller_address of
        (res, w1, None) \<Rightarrow> (res, None, w1)
      | (res, w1, Some build_info) \<Rightarrow>
          (case keep_alive_thread w1 build_info of (thr, w2) \<Rightarrow> (res, Some thr, w2)))"

text \<open>
  The caller and the keep-alive thread run side by side on the one socket. A thread is
  running, has been ended by an exception, or waits in \<open>recv_json\<close> for ever. A schedule
  says whose turn it is: \<open>Beat\<close> lets the keep-alive thread go once through its loop
  body, \<open>Stop\<close> is the caller calling \<open>_send_kill_build\<close>; the two are interleaved
  exchange by exchange. A thread that is not running does nothing when scheduled. What a
  call finds on the socket is the socket's own state: a \<open>Stop\<close> that comes while the
  keep-alive thread still has a request outstanding is refused by the socket.
\<close>

datatype thread_state = Running | Ended py_error | Waiting


record system =
  sock :: world
  caller :: thread_state
  heartbeat :: thread_state





section \<open>Example data\<close>

text \<open>
  The scenario of the specification: the daemon at \<open>127.0.0.1:5556\<close> answers
  \<open>start_build\<close> with \<open>{build_port: 5557}\<close> and every later request with
  \<open>{status: "ok"}\<close>. \<open>fresh msgs\<close> is the world at time 0 in which that endpoint is
  the one that parses and the daemon will send \<open>msgs\<close>.
\<close>

definition info5557 :: pydict where
  "info5557 = [(''build_port'', JInt 5557)]"

definition ok :: pydict where
  "ok = [(''status'', JStr ''ok'')]"

definition fresh :: "incoming list \<Rightarrow> world" where
  "fresh msgs =
     \<lparr>clock = 0, trace = [], inbox = msgs, awaiting = False,
      accepts = (\<lambda>url. url = ''tcp://127.0.0.1:5556'')\<rparr>"

text \<open>
  The socket as \<open>launch_build\<close> leaves it in that scenario, the start reply taking one
  second, with \<open>msgs\<close> still to come from the daemon.
\<close>

definition launched :: "incoming list \<Rightarrow> world" where
  "launched msgs =
     fst (snd (launch_build (fresh (Reply 1 info5557 # msgs)) 5556 ''127.0.0.1'' ''10.0.0.1''))"

section \<open>Coherence of the platform tables\<close>

lemma system_to_unity_iff:
  "getitem SYSTEM_TO_UNITY k = Inr v \<longleftrightarrow> getitem UNITY_TO_SYSTEM v = Inr k"
  by (auto simp: getitem_def SYSTEM_TO_UNITY_def UNITY_TO_SYSTEM_def split: if_splits)

text \<open>
  Claim C10. The platform tables agree with each other: on each of the three system
  names \<open>SYSTEM_TO_UNITY[k]\<close> is \<open>S3_TO_UNITY[SYSTEM_TO_S3[k]]\<close> (and both lookups
  succeed); \<open>UNITY_TO_SYSTEM\<close> is the exact inverse of \<open>SYSTEM_TO_UNITY\<close>, so going
  through the two tables in either order gives back the system name, respectively the
  Unity build target, one started from; and the two tables have exactly the three system
  names and the three build targets as keys.
\<close>

theorem platform_tables_coherent:
  "(\<forall>k \<in> set system_names.
      getitem SYSTEM_TO_UNITY k = getitem2 SYSTEM_TO_S3 S3_TO_UNITY k \<and>
      (\<exists>u. getitem SYSTEM_TO_UNITY k = Inr u) \<and>
      getitem2 SYSTEM_TO_UNITY UNITY_TO_SYSTEM k = Inr k) \<and>
   (\<forall>u \<in> set unity_targets. getitem2 UNITY_TO_SYSTEM SYSTEM_TO_UNITY u = Inr u) \<and>
   (\<forall>k v. getitem SYSTEM_TO_UNITY k = Inr v \<longleftrightarrow> getitem UNITY_TO_SYSTEM v = Inr k) \<and>
   map fst SYSTEM_TO_UNITY = system_names \<and>
   map fst UNITY_TO_SYSTEM = unity_targets"
proof -
  have a: "\<forall>k \<in> set system_names.
      getitem SYSTEM_TO_UNITY k = getitem2 SYSTEM_TO_S3 S3_TO_UNITY k \<and>
      (\<exists>u. getitem SYSTEM_TO_UNITY k = Inr u) \<and>
      getitem2 SYSTEM_TO_UNITY UNITY_TO_SYSTEM k = Inr k"
    by (simp add: system_names_def getitem2_def getitem_def SYSTEM_TO_UNITY_def
          SYSTEM_TO_S3_def S3_TO_UNITY_def UNITY_TO_SYSTEM_def)
  have b: "\<forall>u \<in> set unity_targets. getitem2 UNITY_TO_SYSTEM SYSTEM_TO_UNITY u = Inr u"
    by (simp add: unity_targets_def getitem2_def getitem_def SYSTEM_TO_UNITY_def
          UNITY_TO_SYSTEM_def)
  have c: "map fst SYSTEM_TO_UNITY = system_names \<and> map fst UNITY_TO_SYSTEM = unity_targets"
    by (simp add: SYSTEM_TO_UNITY_def UNITY_TO_SYSTEM_def system_names_def unity_targets_def)
  from a b c system_to_unity_iff show ?thesis by blast
qed

theorem platform_tables_coherent_witness:
  "''Darwin'' \<in> set system_names \<and>
   getitem SYSTEM_TO_UNITY ''Darwin'' = Inr ''StandaloneOSX'' \<and>
   getitem2 SYSTEM_TO_S3 S3_TO_UNITY ''Darwin'' = Inr ''StandaloneOSX'' \<and>
   getitem2 SYSTEM_TO_UNITY UNITY_TO_SYSTEM ''Darwin'' = Inr ''Darwin'' \<and>
   ''StandaloneLinux64'' \<in> set unity_targets \<and>
   getitem2 UNITY_TO_SYSTEM SYSTEM_TO_UNITY ''StandaloneLinux64'' = Inr ''StandaloneLinux64''"
proof -
  have d: "''Darwin'' \<in> set system_names" by (simp add: system_names_def)
  have l: "''StandaloneLinux64'' \<in> set unity_targets" by (simp add: unity_targets_def)
  note a = platform_tables_coherent [THEN conjunct1, THEN bspec, OF d]
  note b = platform_tables_coherent [THEN conjunct2, THEN conjunct1, THEN bspec, OF l]
  have v: "getitem SYSTEM_TO_UNITY ''Darwin'' = Inr ''StandaloneOSX''"
    by (simp add: getitem_def SYSTEM_TO_UNITY_def)
  from a b d l v show ?thesis by simp
qed

section \<open>Basic facts\<close>

declare keep_alive_thread.simps [simp del]

lemma sent_msgs_append: "sent_msgs (xs @ ys) = sent_msgs xs @ sent_msgs ys"
  by (induction xs rule: sent_msgs.induct) simp_all

lemma send_times_append: "send_times (xs @ ys) = send_times xs @ send_times ys"
  by (induction xs rule: send_times.induct) simp_all

lemma idle_eq: "\<not> awaiting w \<Longrightarrow> w\<lparr>awaiting := False\<rparr> = w"
  by (rule world.equality) simp_all

section \<open>One exchange\<close>

lemma exchange_busy:
  "awaiting w \<Longrightarrow> exchange request w = (Raises (ZMQError EFSM), w)"
  by (simp add: exchange_def send_json_def)

lemma exchange_reply:
  assumes "\<not> awaiting w" and "inbox w = Reply d r # rest"
  shows "exchange request w =
     (Returns r,
      w\<lparr>clock := clock w + d,
        trace := trace w @ [(clock w, Send request), (clock w + d, Recv r)],
        inbox := rest, awaiting := False\<rparr>)"
  using assms by (simp add: exchange_def send_json_def recv_json_def emit_def)

lemma exchange_garbage:
  assumes "\<not> awaiting w" and "inbox w = Garbage d # rest"
  shows "exchange request w =
     (Raises JSONDecodeError,
      w\<lparr>clock := clock w + d,
        trace := trace w @ [(clock w, Send request), (clock w + d, RecvGarbage)],
        inbox := rest, awaiting := False\<rparr>)"
  using assms by (simp add: exchange_def send_json_def recv_json_def emit_def)

lemma exchange_failure:
  assumes "\<not> awaiting w" and "inbox w = Failure d e # rest"
  shows "exchange request w =
     (Raises (ZMQError e),
      w\<lparr>clock := clock w + d,
        trace := trace w @ [(clock w, Send request), (clock w + d, RecvFailed)],
        inbox := rest, awaiting := True\<rparr>)"
  using assms by (simp add: exchange_def send_json_def recv_json_def emit_def)

lemma exchange_silent:
  assumes "\<not> awaiting w" and "inbox w = []"
  shows "exchange request w =
     (Blocks, w\<lparr>trace := trace w @ [(clock w, Send request)], awaiting := True\<rparr>)"
  using assms by (simp add: exchange_def send_json_def recv_json_def emit_def)

lemma keep_alive_iteration_busy:
  assumes "getitem build_info ''build_port'' = Inr port" and "awaiting w"
  shows "keep_alive_iteration w build_info = (Raises (ZMQError EFSM), w)"
  using assms by (simp add: keep_alive_iteration_def send_keep_alive_def exchange_busy)

lemma keep_alive_iteration_reply:
  assumes "getitem build_info ''build_port'' = Inr port"
    and "\<not> awaiting w" and "inbox w = Reply d r # rest"
  shows "keep_alive_iteration w build_info =
     (Returns (),
      w\<lparr>clock := clock w + d + 60,
        trace := trace w @ [(clock w, Send (keep_alive_request port)), (clock w + d, Recv r),
                            (clock w + d, Sleep 60)],
        inbox := rest, awaiting := False\<rparr>)"
  using assms
  by (simp add: keep_alive_iteration_def send_keep_alive_def exchange_reply sleep_def emit_def)

lemma keep_alive_iteration_garbage:
  assumes "getitem build_info ''build_port'' = Inr port"
    and "\<not> awaiting w" and "inbox w = Garbage d # rest"
  shows "keep_alive_iteration w build_info =
     (Raises JSONDecodeError,
      w\<lparr>clock := clock w + d,
        trace := trace w @ [(clock w, Send (keep_alive_request port)), (clock w + d, RecvGarbage)],
        inbox := rest, awaiting := False\<rparr>)"
  using assms
  by (simp add: keep_alive_iteration_def send_keep_alive_def exchange_garbage)

lemma keep_alive_iteration_failure:
  assumes "getitem build_info ''build_port'' = Inr port"
    and "\<not> awaiting w" and "inbox w = Failure d e # rest"
  shows "keep_alive_iteration w build_info =
     (Raises (ZMQError e),
      w\<lparr>clock := clock w + d,
        trace := trace w @ [(clock w, Send (keep_alive_request port)), (clock w + d, RecvFailed)],
        inbox := rest, awaiting := True\<rparr>)"
  using assms
  by (simp add: keep_alive_iteration_def send_keep_alive_def exchange_failure)

lemma keep_alive_iteration_silent:
  assumes "getitem build_info ''build_port'' = Inr port"
    and "\<not> awaiting w" and "inbox w = []"
  shows "keep_alive_iteration w build_info =
     (Blocks, w\<lparr>trace := trace w @ [(clock w, Send (keep_alive_request port))],
               awaiting := True\<rparr>)"
  using assms
  by (simp add: keep_alive_iteration_def send_keep_alive_def exchange_silent)

lemma keep_alive_iteration_no_port:
  assumes "getitem build_info ''build_port'' = Inl e"
  shows "keep_alive_iteration w build_info = (Raises e, w)"
  using assms by (simp add: keep_alive_iteration_def send_keep_alive_def)

lemma send_kill_build_reply:
  assumes "getitem build_info ''build_port'' = Inr port"
    and "\<not> awaiting w" and "inbox w = Reply d r # rest"
  shows "send_kill_build w build_info =
     (Returns r,
      w\<lparr>clock := clock w + d,
        trace := trace w @ [(clock w, Send (kill_request port)), (clock w + d, Recv r)],
        inbox := rest, awaiting := False\<rparr>)"
  using assms by (simp add: send_kill_build_def exchange_reply)

lemma send_kill_build_silent:
  assumes "getitem build_info ''build_port'' = Inr port"
    and "\<not> awaiting w" and "inbox w = []"
  shows "send_kill_build w build_info =
     (Blocks, w\<lparr>trace := trace w @ [(clock w, Send (kill_request port))], awaiting := True\<rparr>)"
  using assms by (simp add: send_kill_build_def exchange_silent)

lemma send_kill_build_busy:
  assumes "getitem build_info ''build_port'' = Inr port" and "awaiting w"
  shows "send_kill_build w build_info = (Raises (ZMQError EFSM), w)"
  using assms by (simp add: send_kill_build_def exchange_busy)

lemma launch_build_rejected:
  assumes "\<not> accepts w (''tcp://'' @ build_address @ '':'' @ str_int listener_port)"
  shows "launch_build w listener_port build_address controller_address =
     (Raises (ZMQError EINVAL), w\<lparr>awaiting := False\<rparr>, None)"
  using assms by (simp add: launch_build_def new_socket_def connect_def)

lemma launch_build_reply:
  assumes "accepts w (''tcp://'' @ build_address @ '':'' @ str_int listener_port)"
    and "inbox w = Reply d reply # rest"
  shows "launch_build w listener_port build_address controller_address =
     (Returns reply,
      w\<lparr>clock := clock w + d,
        trace := trace w @
          [(clock w, Connect (''tcp://'' @ build_address @ '':'' @ str_int listener_port)),
           (clock w, Send (start_request controller_address)),
           (clock w + d, Recv reply)],
        inbox := rest, awaiting := False\<rparr>,
      Some reply)"
  using assms
  by (simp add: launch_build_def new_socket_def connect_def send_start_build_def
        exchange_def send_json_def emit_def recv_json_def)

lemma launch_build_garbage:
  assumes "accepts w (''tcp://'' @ build_address @ '':'' @ str_int listener_port)"
    and "inbox w = Garbage d # rest"
  shows "launch_build w listener_port build_address controller_address =
     (Raises JSONDecodeError,
      w\<lparr>clock := clock w + d,
        trace := trace w @
          [(clock w, Connect (''tcp://'' @ build_address @ '':'' @ str_int listener_port)),
           (clock w, Send (start_request controller_address)),
           (clock w + d, RecvGarbage)],
        inbox := rest, awaiting := False\<rparr>,
      None)"
  using assms
  by (simp add: launch_build_def new_socket_def connect_def send_start_build_def
        exchange_def send_json_def emit_def recv_json_def)

lemma launch_build_failure:
  assumes "accepts w (''tcp://'' @ build_address @ '':'' @ str_int listener_port)"
    and "inbox w = Failure d e # rest"
  shows "launch_build w listener_port build_address controller_address =
     (Raises (ZMQError e),
      w\<lparr>clock := clock w + d,
        trace := trace w @
          [(clock w, Connect (''tcp://'' @ build_address @ '':'' @ str_int listener_port)),
           (clock w, Send (start_request controller_address)),
           (clock w + d, RecvFailed)],
        inbox := rest, awaiting := True\<rparr>,
      None)"
  using assms
  by (simp add: launch_build_def new_socket_def connect_def send_start_build_def
        exchange_def send_json_def emit_def recv_json_def)

lemma launch_build_silent:
  assumes "accepts w (''tcp://'' @ build_address @ '':'' @ str_int listener_port)"
    and "inbox w = []"
  shows "launch_build w listener_port build_address controller_address =
     (Blocks,
      w\<lparr>trace := trace w @
          [(clock w, Connect (''tcp://'' @ build_address @ '':'' @ str_int listener_port)),
           (clock w, Send (start_request controller_address))],
        awaiting := True\<rparr>,
      None)"
  using assms
  by (simp add: launch_build_def new_socket_def connect_def send_start_build_def
        exchange_def send_json_def emit_def recv_json_def)

lemma fresh_accepts: "accepts (fresh msgs) (''tcp://'' @ ''127.0.0.1'' @ '':'' @ str_int 5556)"
  by (simp add: fresh_def str_int_def)

section \<open>Starting a build\<close>

text \<open>
  Claim C1. Whenever the daemon's answer to the start request is an object with a
  \<open>build_port\<close>, \<open>launch_build\<close> returns normally; the one message it has sent on the
  socket is \<open>{"type": "start_build", "controller_address": controller_address}\<close>; and the
  \<open>build_port\<close> of the dictionary it returns (the session identifier) is the
  \<open>build_port\<close> of that answer. An answer is there only for a request that went out, so
  the endpoint is one that \<open>connect\<close> takes.
\<close>

theorem launch_build_returns_port:
  assumes "accepts w (''tcp://'' @ build_address @ '':'' @ str_int listener_port)"
    and "inbox w = Reply d reply # rest"
    and "getitem reply ''build_port'' = Inr port"
  shows "\<exists>build_info w' thread.
     launch_build w listener_port build_address controller_address =
       (Returns build_info, w', thread) \<and>
     sent_msgs (added w w') =
       [[(''type'', JStr ''start_build''), (''controller_address'', JStr controller_address)]] \<and>
     getitem build_info ''build_port'' = Inr port"
  using assms
  by (simp add: launch_build_reply added_def start_request_def)

theorem launch_build_returns_port_witness:
  "accepts (fresh [Reply 1 info5557]) (''tcp://'' @ ''127.0.0.1'' @ '':'' @ str_int 5556) \<and>
   inbox (fresh [Reply 1 info5557]) = [Reply 1 info5557] \<and>
   getitem info5557 ''build_port'' = Inr (JInt 5557) \<and>
   (\<exists>build_info w' thread.
     launch_build (fresh [Reply 1 info5557]) 5556 ''127.0.0.1'' ''10.0.0.1'' =
       (Returns build_info, w', thread) \<and>
     sent_msgs (added (fresh [Reply 1 info5557]) w') =
       [[(''type'', JStr ''start_build''), (''controller_address'', JStr ''10.0.0.1'')]] \<and>
     getitem build_info ''build_port'' = Inr (JInt 5557))"
proof -
  note a = fresh_accepts [of "[Reply 1 info5557]"]
  have i: "inbox (fresh [Reply 1 info5557]) = [Reply 1 info5557]"
    by (simp add: fresh_def)
  have p: "getitem info5557 ''build_port'' = Inr (JInt 5557)"
    by (simp add: getitem_def info5557_def)
  from a i p launch_build_returns_port [OF a i p, of "''10.0.0.1''"]
  show ?thesis by blast
qed

section \<open>Stopping a build\<close>

text \<open>
  Claim C8, as the code has it. On a socket with no request outstanding,
  \<open>_send_kill_build\<close>, given the \<open>build_info\<close> of the start reply, sends the one
  message \<open>{"type": "kill_build", "build_port": build_info["build_port"]}\<close> and returns
  the next reply that arrives, at the time it arrives; it waits for that reply, so with
  nothing coming in the request goes out and the call never returns. On a socket on
  which a request is still outstanding the send is refused: the call raises
  \<open>ZMQError\<close> and nothing is sent.
\<close>

theorem send_kill_build_payload_and_ack:
  assumes "getitem build_info ''build_port'' = Inr port"
    and "\<not> awaiting w"
    and "inbox w = Reply d ack # rest"
  shows "send_kill_build w build_info =
       (Returns ack,
        w\<lparr>clock := clock w + d,
          trace := trace w @
            [(clock w, Send [(''type'', JStr ''kill_build''), (''build_port'', port)]),
             (clock w + d, Recv ack)],
          inbox := rest, awaiting := False\<rparr>) \<and>
     send_kill_build (w\<lparr>inbox := []\<rparr>) build_info =
       (Blocks,
        w\<lparr>trace := trace w @
            [(clock w, Send [(''type'', JStr ''kill_build''), (''build_port'', port)])],
          inbox := [], awaiting := True\<rparr>) \<and>
     send_kill_build (w\<lparr>awaiting := True\<rparr>) build_info =
       (Raises (ZMQError EFSM), w\<lparr>awaiting := True\<rparr>)"
  using assms
  by (simp add: send_kill_build_reply send_kill_build_silent send_kill_build_busy
        kill_request_def)

theorem send_kill_build_payload_and_ack_witness:
  "getitem info5557 ''build_port'' = Inr (JInt 5557) \<and>
   \<not> awaiting (fresh [Reply 2 ok]) \<and>
   inbox (fresh [Reply 2 ok]) = [Reply 2 ok] \<and>
   send_kill_build (fresh [Reply 2 ok]) info5557 =
     (Returns ok,
      (fresh [])
        \<lparr>clock := 2,
         trace := [(0, Send [(''type'', JStr ''kill_build''), (''build_port'', JInt 5557)]),
                   (2, Recv ok)]\<rparr>) \<and>
   send_kill_build (fresh []) info5557 =
     (Blocks,
      (fresh [])
        \<lparr>trace := [(0, Send [(''type'', JStr ''kill_build''), (''build_port'', JInt 5557)])],
         awaiting := True\<rparr>) \<and>
   send_kill_build ((fresh [Reply 2 ok])\<lparr>awaiting := True\<rparr>) info5557 =
     (Raises (ZMQError EFSM), (fresh [Reply 2 ok])\<lparr>awaiting := True\<rparr>)"
proof -
  have p: "getitem info5557 ''build_port'' = Inr (JInt 5557)"
    by (simp add: getitem_def info5557_def)
  have a: "\<not> awaiting (fresh [Reply 2 ok])"
    by (simp add: fresh_def)
  have i: "inbox (fresh [Reply 2 ok]) = [Reply 2 ok]"
    by (simp add: fresh_def)
  from p a i send_kill_build_payload_and_ack [OF p a i] show ?thesis
    by (simp add: fresh_def)
qed

text \<open>
  The claim as the specification words it fails on the socket that the keep-alive thread
  is using: in the session below the daemon has answered the start request and nothing
  since, so the thread's \<open>keep_alive\<close> is outstanding. \<open>_send_kill_build\<close> on that
  socket raises; no \<open>kill_build\<close> is sent and no acknowledgment is waited for.
\<close>

theorem stop_on_busy_socket_raises:
  "send_kill_build
     (snd (snd (session (fresh [Reply 1 info5557]) 5556 ''127.0.0.1'' ''10.0.0.1''))) info5557 =
   (Raises (ZMQError EFSM),
    (fresh [])
      \<lparr>clock := 1,
       trace := [(0, Connect ''tcp://127.0.0.1:5556''),
                 (0, Send [(''type'', JStr ''start_build''),
                           (''controller_address'', JStr ''10.0.0.1'')]),
                 (1, Recv info5557),
                 (1, Send [(''type'', JStr ''keep_alive''), (''build_port'', JInt 5557)])],
       awaiting := True\<rparr>)"
proof -
  define w0 where "w0 = fresh [Reply 1 info5557]"
  define w1 where "w1 = w0\<lparr>clock := clock w0 + 1,
        trace := trace w0 @
          [(clock w0, Connect (''tcp://'' @ ''127.0.0.1'' @ '':'' @ str_int 5556)),
           (clock w0, Send (start_request ''10.0.0.1'')),
           (clock w0 + 1, Recv info5557)],
        inbox := [], awaiting := False\<rparr>"
  define w2 where "w2 = w1\<lparr>trace := trace w1 @ [(clock w1, Send (keep_alive_request (JInt 5557)))],
        awaiting := True\<rparr>"
  have p: "getitem info5557 ''build_port'' = Inr (JInt 5557)"
    by (simp add: getitem_def info5557_def)
  have a: "accepts w0 (''tcp://'' @ ''127.0.0.1'' @ '':'' @ str_int 5556)"
    unfolding w0_def by (rule fresh_accepts)
  have i: "inbox w0 = Reply 1 info5557 # []"
    by (simp add: w0_def fresh_def)
  have l: "launch_build w0 5556 ''127.0.0.1'' ''10.0.0.1'' =
      (Returns info5557, w1, Some info5557)"
    unfolding w1_def by (rule launch_build_reply [OF a i])
  have e: "inbox w1 = []" and n: "\<not> awaiting w1" by (simp_all add: w1_def)
  have k: "keep_alive_thread w1 info5557 = (Blocks, w2)"
    unfolding w2_def
    by (subst keep_alive_thread.simps) (simp add: keep_alive_iteration_silent [OF p n e])
  have s: "snd (snd (session w0 5556 ''127.0.0.1'' ''10.0.0.1'')) = w2"
    by (simp add: session_def l k)
  have b: "awaiting w2" by (simp add: w2_def)
  have "send_kill_build w2 info5557 = (Raises (ZMQError EFSM), w2)"
    by (rule send_kill_build_busy [OF p b])
  with s have "send_kill_build (snd (snd (session w0 5556 ''127.0.0.1'' ''10.0.0.1''))) info5557 =
      (Raises (ZMQError EFSM), w2)"
    by simp
  then show ?thesis
    by (simp add: w2_def w1_def w0_def fresh_def str_int_def start_request_def
          keep_alive_request_def)
qed

text \<open>
  Claim C4, as the code has it. \<open>_send_kill_build\<close> keeps no record of what it has done
  before: called twice on the same session, on a socket with no request outstanding and
  with the daemon answering both times, it sends the same \<open>kill_build\<close> message twice
  and returns each time the reply it got.
\<close>

theorem send_kill_build_twice:
  assumes "getitem build_info ''build_port'' = Inr port"
    and "\<not> awaiting w"
    and "inbox w = Reply d1 ack1 # Reply d2 ack2 # rest"
  shows "\<exists>w1 w2.
     send_kill_build w build_info = (Returns ack1, w1) \<and>
     send_kill_build w1 build_info = (Returns ack2, w2) \<and>
     sent_msgs (added w w2) =
       [[(''type'', JStr ''kill_build''), (''build_port'', port)],
        [(''type'', JStr ''kill_build''), (''build_port'', port)]]"
proof -
  define w1 where "w1 = w\<lparr>clock := clock w + d1,
          trace := trace w @ [(clock w, Send (kill_request port)), (clock w + d1, Recv ack1)],
          inbox := Reply d2 ack2 # rest, awaiting := False\<rparr>"
  have a: "send_kill_build w build_info = (Returns ack1, w1)"
    unfolding w1_def by (rule send_kill_build_reply [OF assms])
  have i: "inbox w1 = Reply d2 ack2 # rest" and n: "\<not> awaiting w1"
    by (simp_all add: w1_def)
  note b = send_kill_build_reply [OF assms(1) n i]
  have c: "sent_msgs (added w (snd (send_kill_build w1 build_info))) =
       [kill_request port, kill_request port]"
    by (simp add: b) (simp add: w1_def added_def)
  from a b c show ?thesis
    by (simp add: kill_request_def)
qed

theorem send_kill_build_twice_witness:
  "getitem info5557 ''build_port'' = Inr (JInt 5557) \<and>
   \<not> awaiting (fresh [Reply 2 ok, Reply 1 ok]) \<and>
   inbox (fresh [Reply 2 ok, Reply 1 ok]) = [Reply 2 ok, Reply 1 ok] \<and>
   (\<exists>w1 w2.
     send_kill_build (fresh [Reply 2 ok, Reply 1 ok]) info5557 = (Returns ok, w1) \<and>
     send_kill_build w1 info5557 = (Returns ok, w2) \<and>
     sent_msgs (added (fresh [Reply 2 ok, Reply 1 ok]) w2) =
       [[(''type'', JStr ''kill_build''), (''build_port'', JInt 5557)],
        [(''type'', JStr ''kill_build''), (''build_port'', JInt 5557)]])"
proof -
  have p: "getitem info5557 ''build_port'' = Inr (JInt 5557)"
    by (simp add: getitem_def info5557_def)
  have a: "\<not> awaiting (fresh [Reply 2 ok, Reply 1 ok])"
    by (simp add: fresh_def)
  have i: "inbox (fresh [Reply 2 ok, Reply 1 ok]) = [Reply 2 ok, Reply 1 ok]"
    by (simp add: fresh_def)
  from p a i send_kill_build_twice [OF p a i] show ?thesis by blast
qed

text \<open>
  The claim as the specification words it fails: the second \<open>stop\<close> on a session puts
  a second \<open>kill_build\<close> on the wire.
\<close>

theorem second_stop_sends_again:
  "length (filter is_kill_build (sent_msgs (trace (snd
     (send_kill_build (snd (send_kill_build (fresh [Reply 2 ok, Reply 1 ok]) info5557))
        info5557))))) = 2"
  by (simp add: send_kill_build_def getitem_def info5557_def fresh_def exchange_def
        send_json_def emit_def recv_json_def kill_request_def is_kill_build_def)

section \<open>The keep-alive loop\<close>

lemma spaced_Cons:
  "spaced i xs \<Longrightarrow> \<forall>x \<in> set xs. a + i \<le> x \<Longrightarrow> spaced i (a # xs)"
  by (cases xs) simp_all

lemma keep_alive_thread_busy:
  assumes "getitem build_info ''build_port'' = Inr port" and "awaiting w"
  shows "keep_alive_thread w build_info = (Raises (ZMQError EFSM), w)"
  by (subst keep_alive_thread.simps) (simp add: keep_alive_iteration_busy [OF assms])

lemma keep_alive_thread_silent:
  assumes "getitem build_info ''build_port'' = Inr port"
    and "\<not> awaiting w" and "inbox w = []"
  shows "keep_alive_thread w build_info =
     (Blocks, w\<lparr>trace := trace w @ [(clock w, Send (keep_alive_request port))],
               awaiting := True\<rparr>)"
  by (subst keep_alive_thread.simps) (simp add: keep_alive_iteration_silent [OF assms])

lemma keep_alive_thread_failure:
  assumes "getitem build_info ''build_port'' = Inr port"
    and "\<not> awaiting w" and "inbox w = Failure d e # rest"
  shows "keep_alive_thread w build_info =
     (Raises (ZMQError e),
      w\<lparr>clock := clock w + d,
        trace := trace w @ [(clock w, Send (keep_alive_request port)), (clock w + d, RecvFailed)],
        inbox := rest, awaiting := True\<rparr>)"
  by (subst keep_alive_thread.simps) (simp add: keep_alive_iteration_failure [OF assms])

lemma keep_alive_thread_garbage:
  assumes "getitem build_info ''build_port'' = Inr port"
    and "\<not> awaiting w" and "inbox w = Garbage d # rest"
  shows "keep_alive_thread w build_info =
     (Raises JSONDecodeError,
      w\<lparr>clock := clock w + d,
        trace := trace w @ [(clock w, Send (keep_alive_request port)), (clock w + d, RecvGarbage)],
        inbox := rest, awaiting := False\<rparr>)"
  by (subst keep_alive_thread.simps) (simp add: keep_alive_iteration_garbage [OF assms])

lemma keep_alive_thread_no_port:
  assumes "getitem build_info ''build_port'' = Inl e"
  shows "keep_alive_thread w build_info = (Raises e, w)"
  by (subst keep_alive_thread.simps) (simp add: keep_alive_iteration_no_port [OF assms])

lemma keep_alive_thread_replies:
  assumes port: "getitem build_info ''build_port'' = Inr port"
  shows "\<not> awaiting w \<Longrightarrow> inbox w = replies rs @ rest \<Longrightarrow>
     keep_alive_thread w build_info =
     keep_alive_thread
       (w\<lparr>clock := passes_end (clock w) rs,
          trace := trace w @ passes port (clock w) rs,
          inbox := rest, awaiting := False\<rparr>) build_info"
proof (induction rs arbitrary: w)
  case Nil
  have "w\<lparr>clock := clock w, trace := trace w, inbox := rest, awaiting := False\<rparr> = w"
    using Nil by (intro world.equality) (simp_all add: replies_def)
  then show ?case by simp
next
  case (Cons a rs)
  obtain d r where a: "a = (d, r)" by (cases a)
  define w1 where "w1 = w\<lparr>clock := clock w + d + 60,
        trace := trace w @ [(clock w, Send (keep_alive_request port)), (clock w + d, Recv r),
                            (clock w + d, Sleep 60)],
        inbox := replies rs @ rest, awaiting := False\<rparr>"
  from Cons.prems a have i: "inbox w = Reply d r # (replies rs @ rest)"
    by (simp add: replies_def)
  have "keep_alive_thread w build_info = keep_alive_thread w1 build_info"
    unfolding w1_def
    by (subst keep_alive_thread.simps)
       (simp add: keep_alive_iteration_reply [OF port Cons.prems(1) i])
  also have "\<dots> = keep_alive_thread
       (w1\<lparr>clock := passes_end (clock w1) rs,
          trace := trace w1 @ passes port (clock w1) rs,
          inbox := rest, awaiting := False\<rparr>) build_info"
    by (rule Cons.IH) (simp_all add: w1_def)
  finally show ?case
    by (simp add: a w1_def keep_alive_request_def)
qed

lemma keep_alive_thread_answered:
  assumes "getitem build_info ''build_port'' = Inr port"
    and "\<not> awaiting w" and "inbox w = replies rs"
  shows "keep_alive_thread w build_info =
     (Blocks,
      w\<lparr>clock := passes_end (clock w) rs,
        trace := trace w @ passes port (clock w) rs @
          [(passes_end (clock w) rs, Send (keep_alive_request port))],
        inbox := [], awaiting := True\<rparr>)"
proof -
  define w' where "w' = w\<lparr>clock := passes_end (clock w) rs,
          trace := trace w @ passes port (clock w) rs,
          inbox := [], awaiting := False\<rparr>"
  from assms(3) have "inbox w = replies rs @ []" by simp
  with assms(2) have "keep_alive_thread w build_info = keep_alive_thread w' build_info"
    unfolding w'_def by (rule keep_alive_thread_replies [OF assms(1)])
  also have "\<dots> = (Blocks, w'\<lparr>trace := trace w' @ [(clock w', Send (keep_alive_request port))],
       awaiting := True\<rparr>)"
    by (rule keep_alive_thread_silent [OF assms(1)]) (simp_all add: w'_def)
  finally show ?thesis
    by (simp add: w'_def)
qed

lemma send_times_passes:
  "send_times (passes port t rs @ [(passes_end t rs, Send m)]) =
     from_gaps t (map (\<lambda>(d, r). d + 60) rs)"
  by (induction port t rs rule: passes.induct) (simp_all add: add.assoc)

text \<open>
  Claim C2, as the code has it. With the \<open>build_info\<close> of the start reply and a socket
  with no request outstanding, each pass of the keep-alive thread sends exactly
  \<open>{"type": "keep_alive", "build_port": build_info["build_port"]}\<close>, takes one reply,
  and sleeps 60 seconds before the next pass, for as long as the daemon answers; when the
  replies \<open>rs\<close> are used up, the next keep-alive is out and the thread waits for its
  reply. The sleep begins when the reply has come, so from one send to the next it is 60
  seconds and the time the reply took.
\<close>

theorem keep_alive_thread_passes:
  assumes "getitem build_info ''build_port'' = Inr port"
    and "\<not> awaiting w"
    and "inbox w = replies rs"
  shows "keep_alive_thread w build_info =
     (Blocks,
      w\<lparr>clock := passes_end (clock w) rs,
        trace := trace w @ passes port (clock w) rs @
          [(passes_end (clock w) rs,
            Send [(''type'', JStr ''keep_alive''), (''build_port'', port)])],
        inbox := [], awaiting := True\<rparr>) \<and>
     send_times (added w (snd (keep_alive_thread w build_info))) =
       from_gaps (clock w) (map (\<lambda>(d, r). d + 60) rs)"
proof -
  note k = keep_alive_thread_answered [OF assms]
  have "send_times (added w (snd (keep_alive_thread w build_info))) =
      send_times (passes port (clock w) rs @
        [(passes_end (clock w) rs, Send (keep_alive_request port))])"
    by (simp add: k added_def)
  then have "send_times (added w (snd (keep_alive_thread w build_info))) =
      from_gaps (clock w) (map (\<lambda>(d, r). d + 60) rs)"
    by (simp only: send_times_passes)
  with k show ?thesis
    by (simp add: keep_alive_request_def)
qed

theorem keep_alive_thread_passes_witness:
  "getitem info5557 ''build_port'' = Inr (JInt 5557) \<and>
   \<not> awaiting (fresh [Reply 2 ok, Reply 0 ok]) \<and>
   inbox (fresh [Reply 2 ok, Reply 0 ok]) = replies [(2, ok), (0, ok)] \<and>
   keep_alive_thread (fresh [Reply 2 ok, Reply 0 ok]) info5557 =
     (Blocks,
      (fresh [])
        \<lparr>clock := 122,
         trace :=
           [(0, Send [(''type'', JStr ''keep_alive''), (''build_port'', JInt 5557)]),
            (2, Recv ok), (2, Sleep 60),
            (62, Send [(''type'', JStr ''keep_alive''), (''build_port'', JInt 5557)]),
            (62, Recv ok), (62, Sleep 60),
            (122, Send [(''type'', JStr ''keep_alive''), (''build_port'', JInt 5557)])],
         awaiting := True\<rparr>) \<and>
   send_times (added (fresh [Reply 2 ok, Reply 0 ok])
       (snd (keep_alive_thread (fresh [Reply 2 ok, Reply 0 ok]) info5557))) =
     [0, 62, 122]"
proof -
  have p: "getitem info5557 ''build_port'' = Inr (JInt 5557)"
    by (simp add: getitem_def info5557_def)
  have a: "\<not> awaiting (fresh [Reply 2 ok, Reply 0 ok])"
    by (simp add: fresh_def)
  have i: "inbox (fresh [Reply 2 ok, Reply 0 ok]) = replies [(2, ok), (0, ok)]"
    by (simp add: fresh_def replies_def)
  from p a i keep_alive_thread_passes [OF p a i] show ?thesis
    by (simp add: fresh_def replies_def added_def)
qed

text \<open>
  The claim as the specification words it fails on the period: when the daemon takes 100
  seconds over its first reply, the sends come at 0, 160 and 220 seconds, where a fixed
  period of 60 seconds has them at 0, 60 and 120.
\<close>

theorem keep_alive_period_not_fixed:
  "send_times (added (fresh [Reply 100 ok, Reply 0 ok])
       (snd (keep_alive_thread (fresh [Reply 100 ok, Reply 0 ok]) info5557))) =
     [0, 160, 220] \<and>
   fixed_period 60 0 3 = [0, 60, 120]"
proof -
  have p: "getitem info5557 ''build_port'' = Inr (JInt 5557)"
    by (simp add: getitem_def info5557_def)
  have a: "\<not> awaiting (fresh [Reply 100 ok, Reply 0 ok])"
    by (simp add: fresh_def)
  have i: "inbox (fresh [Reply 100 ok, Reply 0 ok]) = replies [(100, ok), (0, ok)]"
    by (simp add: fresh_def replies_def)
  have "send_times (added (fresh [Reply 100 ok, Reply 0 ok])
       (snd (keep_alive_thread (fresh [Reply 100 ok, Reply 0 ok]) info5557))) =
     [0, 160, 220]"
    by (simp add: keep_alive_thread_answered [OF p a i] added_def) (simp add: fresh_def)
  moreover have "fixed_period 60 0 3 = [0, 60, 120]"
    by (simp add: fixed_period_def upt_rec numeral_3_eq_3)
  ultimately show ?thesis by simp
qed

lemma keep_alive_thread_invariant:
  "\<exists>tr. trace (snd (keep_alive_thread w build_info)) = trace w @ tr \<and>
        spaced 60 (send_times tr) \<and>
        (\<forall>t \<in> set (send_times tr). clock w \<le> t) \<and>
        one_in_flight False tr"
proof (induction w build_info rule: keep_alive_thread.induct)
  case (1 w build_info)
  show ?case
  proof (cases "getitem build_info ''build_port''")
    case (Inl e)
    then show ?thesis by (simp add: keep_alive_thread_no_port)
  next
    case (Inr port)
    show ?thesis
    proof (cases "awaiting w")
      case True
      with Inr show ?thesis by (simp add: keep_alive_thread_busy)
    next
      case False
      show ?thesis
      proof (cases "inbox w")
        case Nil
        with Inr False show ?thesis by (simp add: keep_alive_thread_silent)
      next
        case (Cons m rest)
        show ?thesis
        proof (cases m)
          case (Failure d e)
          with Inr False Cons show ?thesis by (simp add: keep_alive_thread_failure)
        next
          case (Garbage d)
          with Inr False Cons show ?thesis by (simp add: keep_alive_thread_garbage)
        next
          case (Reply d r)
          define w1 where "w1 = w\<lparr>clock := clock w + d + 60,
              trace := trace w @ [(clock w, Send (keep_alive_request port)),
                                  (clock w + d, Recv r), (clock w + d, Sleep 60)],
              inbox := rest, awaiting := False\<rparr>"
          from Reply Cons have i: "inbox w = Reply d r # rest" by simp
          have it: "keep_alive_iteration w build_info = (Returns (), w1)"
            unfolding w1_def by (rule keep_alive_iteration_reply [OF Inr False i])
          have k: "keep_alive_thread w build_info = keep_alive_thread w1 build_info"
            by (subst keep_alive_thread.simps) (simp add: it)
          from "1.IH" [OF it [symmetric] refl]
          obtain tr where tr: "trace (snd (keep_alive_thread w1 build_info)) = trace w1 @ tr"
            and sp: "spaced 60 (send_times tr)"
            and lb: "\<forall>t \<in> set (send_times tr). clock w1 \<le> t"
            and fl: "one_in_flight False tr"
            by blast
          let ?tr = "(clock w, Send (keep_alive_request port)) # (clock w + d, Recv r) #
                     (clock w + d, Sleep 60) # tr"
          have a: "trace (snd (keep_alive_thread w build_info)) = trace w @ ?tr"
            using k tr by (simp add: w1_def)
          have st: "send_times ?tr = clock w # send_times tr" by simp
          from lb have lb': "\<forall>x \<in> set (send_times tr). clock w + 60 \<le> x"
            by (auto simp: w1_def)
          have b: "spaced 60 (send_times ?tr)"
            unfolding st using sp lb' by (rule spaced_Cons)
          have c: "\<forall>t \<in> set (send_times ?tr). clock w \<le> t"
            unfolding st using lb by (auto simp: w1_def)
          have e: "one_in_flight False ?tr"
            using fl by simp
          from a b c e show ?thesis by blast
        qed
      qed
    qed
  qed
qed

text \<open>
  Claim C7. Whatever the daemon does, the keep-alive exchanges of a session come one
  after the other: in what the thread adds to the trace, no request is sent while the
  reply to the one before is still awaited, and any two consecutive sends are at least
  60 seconds apart.
\<close>

theorem keep_alive_thread_sequential_spaced:
  "one_in_flight False (added w (snd (keep_alive_thread w build_info))) \<and>
   spaced 60 (send_times (added w (snd (keep_alive_thread w build_info))))"
proof -
  from keep_alive_thread_invariant [of w build_info]
  obtain tr where "trace (snd (keep_alive_thread w build_info)) = trace w @ tr"
    and "spaced 60 (send_times tr)" and "one_in_flight False tr"
    by blast
  then show ?thesis by (simp add: added_def)
qed

lemma keep_alive_thread_first:
  assumes "getitem build_info ''build_port'' = Inr port" and "\<not> awaiting w"
  shows "\<exists>tr. trace (snd (keep_alive_thread w build_info)) =
      trace w @ (clock w, Send (keep_alive_request port)) # tr"
proof (cases "inbox w")
  case Nil
  show ?thesis by (simp add: keep_alive_thread_silent [OF assms Nil])
next
  case (Cons m rest)
  show ?thesis
  proof (cases m)
    case (Failure d e)
    with Cons have "inbox w = Failure d e # rest" by simp
    from keep_alive_thread_failure [OF assms this] show ?thesis by simp
  next
    case (Garbage d)
    with Cons have "inbox w = Garbage d # rest" by simp
    from keep_alive_thread_garbage [OF assms this] show ?thesis by simp
  next
    case (Reply d r)
    with Cons have i: "inbox w = Reply d r # rest" by simp
    define w1 where "w1 = w\<lparr>clock := clock w + d + 60,
          trace := trace w @ [(clock w, Send (keep_alive_request port)),
                              (clock w + d, Recv r), (clock w + d, Sleep 60)],
          inbox := rest, awaiting := False\<rparr>"
    have k: "keep_alive_thread w build_info = keep_alive_thread w1 build_info"
      unfolding w1_def
      by (subst keep_alive_thread.simps) (simp add: keep_alive_iteration_reply [OF assms i])
    from keep_alive_thread_invariant [of w1 build_info]
    obtain tr where "trace (snd (keep_alive_thread w1 build_info)) = trace w1 @ tr" by blast
    with k show ?thesis by (simp add: w1_def)
  qed
qed

text \<open>
  Claim C9. The keep-alive thread sends its first \<open>keep_alive\<close> as its very first
  action, at the time it starts and before any sleep; in a session that is the moment at
  which the start reply arrived, \<open>launch_build\<close> doing nothing between the reply and
  \<open>thread.start()\<close> that takes time.
\<close>

theorem first_keep_alive_immediately:
  assumes "accepts w (''tcp://'' @ build_address @ '':'' @ str_int listener_port)"
    and "inbox w = Reply d reply # rest"
    and "getitem reply ''build_port'' = Inr port"
  shows "\<exists>tr.
     trace (snd (snd (session w listener_port build_address controller_address))) =
       trace w @
       [(clock w, Connect (''tcp://'' @ build_address @ '':'' @ str_int listener_port)),
        (clock w, Send (start_request controller_address)),
        (clock w + d, Recv reply),
        (clock w + d, Send [(''type'', JStr ''keep_alive''), (''build_port'', port)])] @ tr"
proof -
  define w1 where "w1 = w\<lparr>clock := clock w + d,
        trace := trace w @
          [(clock w, Connect (''tcp://'' @ build_address @ '':'' @ str_int listener_port)),
           (clock w, Send (start_request controller_address)),
           (clock w + d, Recv reply)],
        inbox := rest, awaiting := False\<rparr>"
  have l: "launch_build w listener_port build_address controller_address =
      (Returns reply, w1, Some reply)"
    unfolding w1_def by (rule launch_build_reply [OF assms(1,2)])
  have s: "snd (snd (session w listener_port build_address controller_address)) =
      snd (keep_alive_thread w1 reply)"
    by (simp add: session_def l split: prod.splits)
  have n: "\<not> awaiting w1" by (simp add: w1_def)
  from keep_alive_thread_first [OF assms(3) n]
  obtain tr where t: "trace (snd (keep_alive_thread w1 reply)) =
      trace w1 @ (clock w1, Send (keep_alive_request port)) # tr"
    by blast
  have "trace (snd (snd (session w listener_port build_address controller_address))) =
       trace w @
       [(clock w, Connect (''tcp://'' @ build_address @ '':'' @ str_int listener_port)),
        (clock w, Send (start_request controller_address)),
        (clock w + d, Recv reply),
        (clock w + d, Send [(''type'', JStr ''keep_alive''), (''build_port'', port)])] @ tr"
    using s t by (simp add: keep_alive_request_def w1_def)
  then show ?thesis by (rule exI)
qed

theorem first_keep_alive_immediately_witness:
  "accepts (fresh [Reply 1 info5557, Reply 2 ok])
     (''tcp://'' @ ''127.0.0.1'' @ '':'' @ str_int 5556) \<and>
   inbox (fresh [Reply 1 info5557, Reply 2 ok]) = Reply 1 info5557 # [Reply 2 ok] \<and>
   getitem info5557 ''build_port'' = Inr (JInt 5557) \<and>
   (\<exists>tr.
     trace (snd (snd (session (fresh [Reply 1 info5557, Reply 2 ok]) 5556
                        ''127.0.0.1'' ''10.0.0.1''))) =
       trace (fresh [Reply 1 info5557, Reply 2 ok]) @
       [(clock (fresh [Reply 1 info5557, Reply 2 ok]),
           Connect (''tcp://'' @ ''127.0.0.1'' @ '':'' @ str_int 5556)),
        (clock (fresh [Reply 1 info5557, Reply 2 ok]), Send (start_request ''10.0.0.1'')),
        (clock (fresh [Reply 1 info5557, Reply 2 ok]) + 1, Recv info5557),
        (clock (fresh [Reply 1 info5557, Reply 2 ok]) + 1,
           Send [(''type'', JStr ''keep_alive''), (''build_port'', JInt 5557)])] @ tr)"
proof -
  note a = fresh_accepts [of "[Reply 1 info5557, Reply 2 ok]"]
  have i: "inbox (fresh [Reply 1 info5557, Reply 2 ok]) = Reply 1 info5557 # [Reply 2 ok]"
    by (simp add: fresh_def)
  have p: "getitem info5557 ''build_port'' = Inr (JInt 5557)"
    by (simp add: getitem_def info5557_def)
  from a i p first_keep_alive_immediately [OF a i p, of "''10.0.0.1''"]
  show ?thesis by blast
qed

section \<open>Failures\<close>

lemma sent_msgs_passes:
  "sent_msgs (passes port t rs) = replicate (length rs) (keep_alive_request port)"
  by (induction port t rs rule: passes.induct) (simp_all add: keep_alive_request_def)

lemma keep_alive_thread_fails_at:
  assumes "getitem build_info ''build_port'' = Inr port"
    and "\<not> awaiting w"
    and "inbox w = replies rs @ Failure d e # rest"
  shows "keep_alive_thread w build_info =
     (Raises (ZMQError e),
      w\<lparr>clock := passes_end (clock w) rs + d,
        trace := trace w @ passes port (clock w) rs @
          [(passes_end (clock w) rs, Send (keep_alive_request port)),
           (passes_end (clock w) rs + d, RecvFailed)],
        inbox := rest, awaiting := True\<rparr>)"
proof -
  define w' where "w' = w\<lparr>clock := passes_end (clock w) rs,
          trace := trace w @ passes port (clock w) rs,
          inbox := Failure d e # rest, awaiting := False\<rparr>"
  have "keep_alive_thread w build_info = keep_alive_thread w' build_info"
    unfolding w'_def using assms(2,3) by (rule keep_alive_thread_replies [OF assms(1)])
  also have "\<dots> =
     (Raises (ZMQError e),
      w'\<lparr>clock := clock w' + d,
        trace := trace w' @
          [(clock w', Send (keep_alive_request port)), (clock w' + d, RecvFailed)],
        inbox := rest, awaiting := True\<rparr>)"
    by (rule keep_alive_thread_failure [OF assms(1)]) (simp_all add: w'_def)
  finally show ?thesis by (simp add: w'_def)
qed

text \<open>
  Claim C6, as the code has it. When the receive of a keep-alive exchange raises, the
  exception ends the keep-alive thread there: the \<open>keep_alive\<close> of that exchange is the
  last message of the session, nothing is retried and what the daemon would still have
  answered (\<open>rest\<close>) is never asked for. The caller is not touched: its
  \<open>launch_build\<close> has returned the start reply. Nothing but the dead thread records
  the failure.
\<close>

theorem heartbeat_failure_ends_thread:
  assumes "accepts w (''tcp://'' @ build_address @ '':'' @ str_int listener_port)"
    and "inbox w = Reply d0 reply # replies rs @ Failure d e # rest"
    and "getitem reply ''build_port'' = Inr port"
  shows "\<exists>w'.
     session w listener_port build_address controller_address =
       (Returns reply, Some (Raises (ZMQError e)), w') \<and>
     sent_msgs (added w w') =
       start_request controller_address #
       replicate (Suc (length rs)) [(''type'', JStr ''keep_alive''), (''build_port'', port)] \<and>
     inbox w' = rest"
proof -
  define w1 where "w1 = w\<lparr>clock := clock w + d0,
        trace := trace w @
          [(clock w, Connect (''tcp://'' @ build_address @ '':'' @ str_int listener_port)),
           (clock w, Send (start_request controller_address)),
           (clock w + d0, Recv reply)],
        inbox := replies rs @ Failure d e # rest, awaiting := False\<rparr>"
  define w2 where "w2 = w1\<lparr>clock := passes_end (clock w1) rs + d,
        trace := trace w1 @ passes port (clock w1) rs @
          [(passes_end (clock w1) rs, Send (keep_alive_request port)),
           (passes_end (clock w1) rs + d, RecvFailed)],
        inbox := rest, awaiting := True\<rparr>"
  have l: "launch_build w listener_port build_address controller_address =
      (Returns reply, w1, Some reply)"
    unfolding w1_def by (rule launch_build_reply [OF assms(1,2)])
  have i: "inbox w1 = replies rs @ Failure d e # rest" and n: "\<not> awaiting w1"
    by (simp_all add: w1_def)
  note k = keep_alive_thread_fails_at [OF assms(3) n i]
  have s: "session w listener_port build_address controller_address =
      (Returns reply, Some (Raises (ZMQError e)), w2)"
    by (simp add: session_def l k w2_def)
  have m: "sent_msgs (added w w2) =
      start_request controller_address #
      replicate (Suc (length rs)) (keep_alive_request port)"
    by (simp add: w2_def w1_def added_def sent_msgs_append sent_msgs_passes
          replicate_append_same)
  have r: "inbox w2 = rest" by (simp add: w2_def)
  from s m r show ?thesis
    unfolding keep_alive_request_def by blast
qed

theorem heartbeat_failure_ends_thread_witness:
  "accepts (fresh [Reply 1 info5557, Reply 2 ok, Failure 5 ETERM, Reply 0 ok])
     (''tcp://'' @ ''127.0.0.1'' @ '':'' @ str_int 5556) \<and>
   inbox (fresh [Reply 1 info5557, Reply 2 ok, Failure 5 ETERM, Reply 0 ok]) =
     Reply 1 info5557 # replies [(2, ok)] @ Failure 5 ETERM # [Reply 0 ok] \<and>
   getitem info5557 ''build_port'' = Inr (JInt 5557) \<and>
   (\<exists>w'.
     session (fresh [Reply 1 info5557, Reply 2 ok, Failure 5 ETERM, Reply 0 ok]) 5556
        ''127.0.0.1'' ''10.0.0.1'' =
       (Returns info5557, Some (Raises (ZMQError ETERM)), w') \<and>
     sent_msgs (added (fresh [Reply 1 info5557, Reply 2 ok, Failure 5 ETERM, Reply 0 ok]) w') =
       start_request ''10.0.0.1'' #
       replicate (Suc (length [(2::nat, ok)]))
         [(''type'', JStr ''keep_alive''), (''build_port'', JInt 5557)] \<and>
     inbox w' = [Reply 0 ok])"
proof -
  note a = fresh_accepts [of "[Reply 1 info5557, Reply 2 ok, Failure 5 ETERM, Reply 0 ok]"]
  have i: "inbox (fresh [Reply 1 info5557, Reply 2 ok, Failure 5 ETERM, Reply 0 ok]) =
     Reply 1 info5557 # replies [(2, ok)] @ Failure 5 ETERM # [Reply 0 ok]"
    by (simp add: fresh_def replies_def)
  have p: "getitem info5557 ''build_port'' = Inr (JInt 5557)"
    by (simp add: getitem_def info5557_def)
  from a i p heartbeat_failure_ends_thread [OF a i p, of "''10.0.0.1''"]
  show ?thesis by blast
qed

text \<open>
  The claim as the specification words it fails where a heartbeat gets no reply: the
  source sets no timeout, so the exchange never fails. The keep-alive is sent, and the
  thread stays in \<open>recv_json\<close>: it has not stopped, and nothing marks the session.
\<close>

theorem heartbeat_without_reply_waits:
  "session (fresh [Reply 1 info5557]) 5556 ''127.0.0.1'' ''10.0.0.1'' =
     (Returns info5557, Some Blocks,
      (fresh [])
        \<lparr>clock := 1,
         trace := [(0, Connect ''tcp://127.0.0.1:5556''),
                   (0, Send [(''type'', JStr ''start_build''),
                             (''controller_address'', JStr ''10.0.0.1'')]),
                   (1, Recv info5557),
                   (1, Send [(''type'', JStr ''keep_alive''), (''build_port'', JInt 5557)])],
         awaiting := True\<rparr>)"
proof -
  define w0 where "w0 = fresh [Reply 1 info5557]"
  define w1 where "w1 = w0\<lparr>clock := clock w0 + 1,
        trace := trace w0 @
          [(clock w0, Connect (''tcp://'' @ ''127.0.0.1'' @ '':'' @ str_int 5556)),
           (clock w0, Send (start_request ''10.0.0.1'')),
           (clock w0 + 1, Recv info5557)],
        inbox := [], awaiting := False\<rparr>"
  have p: "getitem info5557 ''build_port'' = Inr (JInt 5557)"
    by (simp add: getitem_def info5557_def)
  have a: "accepts w0 (''tcp://'' @ ''127.0.0.1'' @ '':'' @ str_int 5556)"
    unfolding w0_def by (rule fresh_accepts)
  have i: "inbox w0 = Reply 1 info5557 # []"
    by (simp add: w0_def fresh_def)
  have l: "launch_build w0 5556 ''127.0.0.1'' ''10.0.0.1'' =
      (Returns info5557, w1, Some info5557)"
    unfolding w1_def by (rule launch_build_reply [OF a i])
  have e: "inbox w1 = []" and n: "\<not> awaiting w1" by (simp_all add: w1_def)
  note k = keep_alive_thread_silent [OF p n e]
  have "session w0 5556 ''127.0.0.1'' ''10.0.0.1'' =
      (Returns info5557, Some Blocks,
       w1\<lparr>trace := trace w1 @ [(clock w1, Send (keep_alive_request (JInt 5557)))],
          awaiting := True\<rparr>)"
    by (simp add: session_def l k)
  then show ?thesis
    by (simp add: w1_def w0_def fresh_def str_int_def start_request_def keep_alive_request_def)
qed

text \<open>
  Claim C5, as the code has it. \<open>launch_build\<close> handles nothing and checks nothing,
  so what happens to a start that goes wrong is what happens to the call it is in:
  \<^item> an endpoint that \<open>connect\<close> does not take: \<open>ZMQError\<close> leaves \<open>launch_build\<close>
    with nothing sent;
  \<^item> a daemon that cannot be reached: the start request goes out once and
    \<open>launch_build\<close> waits for the reply for ever. It does not fail;
  \<^item> a reply that is not JSON, or a receive that raises: that exception leaves
    \<open>launch_build\<close> as it is;
  \<^item> a reply without \<open>build_port\<close>: \<open>launch_build\<close> returns it. The missing key
    only ends the keep-alive thread, with a \<open>KeyError\<close>, before it has sent anything.

  In none of them is anything retried: the start request is sent once at most. A
  descriptor is returned, and a keep-alive thread started, in the last case only.
\<close>

theorem launch_build_failures:
  assumes "\<not> accepts u (''tcp://'' @ bad_address @ '':'' @ str_int bad_port)"
    and "accepts w (''tcp://'' @ build_address @ '':'' @ str_int listener_port)"
    and "getitem reply ''build_port'' = Inl e'"
  shows "(\<exists>u'. launch_build u bad_port bad_address controller_address =
            (Raises (ZMQError EINVAL), u', None) \<and>
          added u u' = []) \<and>
     (\<exists>w'. launch_build (w\<lparr>inbox := []\<rparr>) listener_port build_address controller_address =
            (Blocks, w', None) \<and>
          sent_msgs (added w w') = [start_request controller_address]) \<and>
     (\<exists>w'. launch_build (w\<lparr>inbox := Garbage d # rest\<rparr>)
              listener_port build_address controller_address =
            (Raises JSONDecodeError, w', None) \<and>
          sent_msgs (added w w') = [start_request controller_address]) \<and>
     (\<exists>w'. launch_build (w\<lparr>inbox := Failure d e # rest\<rparr>)
              listener_port build_address controller_address =
            (Raises (ZMQError e), w', None) \<and>
          sent_msgs (added w w') = [start_request controller_address]) \<and>
     (\<exists>w'. session (w\<lparr>inbox := Reply d reply # rest\<rparr>)
              listener_port build_address controller_address =
            (Returns reply, Some (Raises (KeyError ''build_port'')), w') \<and>
          sent_msgs (added w w') = [start_request controller_address])"
proof -
  have a: "added u (u\<lparr>awaiting := False\<rparr>) = []"
    by (simp add: added_def)
  note r = launch_build_rejected [OF assms(1), of controller_address]
  have acc: "\<And>x. accepts (w\<lparr>inbox := x\<rparr>)
      (''tcp://'' @ build_address @ '':'' @ str_int listener_port)"
    using assms(2) by simp
  have s: "\<exists>w'. launch_build (w\<lparr>inbox := []\<rparr>) listener_port build_address controller_address =
            (Blocks, w', None) \<and>
          sent_msgs (added w w') = [start_request controller_address]"
    by (simp add: launch_build_silent [OF acc] added_def)
  have g: "\<exists>w'. launch_build (w\<lparr>inbox := Garbage d # rest\<rparr>)
              listener_port build_address controller_address =
            (Raises JSONDecodeError, w', None) \<and>
          sent_msgs (added w w') = [start_request controller_address]"
    by (simp add: launch_build_garbage [OF acc] added_def)
  have f: "\<exists>w'. launch_build (w\<lparr>inbox := Failure d e # rest\<rparr>)
              listener_port build_address controller_address =
            (Raises (ZMQError e), w', None) \<and>
          sent_msgs (added w w') = [start_request controller_address]"
    by (simp add: launch_build_failure [OF acc] added_def)
  define v' where "v' = (w\<lparr>inbox := Reply d reply # rest\<rparr>)\<lparr>clock := clock w + d,
        trace := trace w @
          [(clock w, Connect (''tcp://'' @ build_address @ '':'' @ str_int listener_port)),
           (clock w, Send (start_request controller_address)),
           (clock w + d, Recv reply)],
        inbox := rest, awaiting := False\<rparr>"
  have l: "launch_build (w\<lparr>inbox := Reply d reply # rest\<rparr>)
        listener_port build_address controller_address =
      (Returns reply, v', Some reply)"
    using launch_build_reply [OF acc, of "Reply d reply # rest" d reply rest controller_address]
    by (simp add: v'_def)
  from assms(3) have e': "e' = KeyError ''build_port''"
    by (simp add: getitem_def split: option.splits)
  note k = keep_alive_thread_no_port [OF assms(3), of v']
  have c: "session (w\<lparr>inbox := Reply d reply # rest\<rparr>)
        listener_port build_address controller_address =
      (Returns reply, Some (Raises (KeyError ''build_port'')), v')"
    by (simp add: session_def l k e')
  have m: "sent_msgs (added w v') = [start_request controller_address]"
    by (simp add: v'_def added_def)
  from r a s g f c m show ?thesis by blast
qed

theorem launch_build_failures_witness:
  "\<not> accepts (fresh []) (''tcp://'' @ ''bad host'' @ '':'' @ str_int (- 1)) \<and>
   accepts (fresh []) (''tcp://'' @ ''127.0.0.1'' @ '':'' @ str_int 5556) \<and>
   getitem ok ''build_port'' = Inl (KeyError ''build_port'') \<and>
   (\<exists>u'. launch_build (fresh []) (- 1) ''bad host'' ''10.0.0.1'' =
            (Raises (ZMQError EINVAL), u', None) \<and>
          added (fresh []) u' = []) \<and>
   (\<exists>w'. launch_build (fresh []) 5556 ''127.0.0.1'' ''10.0.0.1'' =
            (Blocks, w', None) \<and>
          sent_msgs (added (fresh []) w') = [start_request ''10.0.0.1'']) \<and>
   (\<exists>w'. launch_build (fresh [Garbage 1]) 5556 ''127.0.0.1'' ''10.0.0.1'' =
            (Raises JSONDecodeError, w', None) \<and>
          sent_msgs (added (fresh []) w') = [start_request ''10.0.0.1'']) \<and>
   (\<exists>w'. launch_build (fresh [Failure 1 ETERM]) 5556 ''127.0.0.1'' ''10.0.0.1'' =
            (Raises (ZMQError ETERM), w', None) \<and>
          sent_msgs (added (fresh []) w') = [start_request ''10.0.0.1'']) \<and>
   (\<exists>w'. session (fresh [Reply 1 ok]) 5556 ''127.0.0.1'' ''10.0.0.1'' =
            (Returns ok, Some (Raises (KeyError ''build_port'')), w') \<and>
          sent_msgs (added (fresh []) w') = [start_request ''10.0.0.1''])"
proof -
  have r: "\<not> accepts (fresh []) (''tcp://'' @ ''bad host'' @ '':'' @ str_int (- 1))"
    by (simp add: fresh_def)
  note a = fresh_accepts [of "[]"]
  have p: "getitem ok ''build_port'' = Inl (KeyError ''build_port'')"
    by (simp add: getitem_def ok_def)
  have x: "\<And>msgs. (fresh [])\<lparr>inbox := msgs\<rparr> = fresh msgs"
    by (simp add: fresh_def)
  note t = launch_build_failures [OF r a p, where controller_address = "''10.0.0.1''"
      and d = 1 and rest = "[]" and e = ETERM]
  from t have "\<exists>u'. launch_build (fresh []) (- 1) ''bad host'' ''10.0.0.1'' =
            (Raises (ZMQError EINVAL), u', None) \<and>
          added (fresh []) u' = []"
    by (rule conjunct1)
  moreover
  from t have "\<exists>w'. launch_build ((fresh [])\<lparr>inbox := []\<rparr>) 5556 ''127.0.0.1'' ''10.0.0.1'' =
            (Blocks, w', None) \<and>
          sent_msgs (added (fresh []) w') = [start_request ''10.0.0.1'']"
    by (rule conjunct2 [THEN conjunct1])
  moreover
  from t have "\<exists>w'. launch_build ((fresh [])\<lparr>inbox := Garbage 1 # []\<rparr>) 5556 ''127.0.0.1''
              ''10.0.0.1'' =
            (Raises JSONDecodeError, w', None) \<and>
          sent_msgs (added (fresh []) w') = [start_request ''10.0.0.1'']"
    by (rule conjunct2 [THEN conjunct2, THEN conjunct1])
  moreover
  from t have "\<exists>w'. launch_build ((fresh [])\<lparr>inbox := Failure 1 ETERM # []\<rparr>) 5556 ''127.0.0.1''
              ''10.0.0.1'' =
            (Raises (ZMQError ETERM), w', None) \<and>
          sent_msgs (added (fresh []) w') = [start_request ''10.0.0.1'']"
    by (rule conjunct2 [THEN conjunct2, THEN conjunct2, THEN conjunct1])
  moreover
  from t have "\<exists>w'. session ((fresh [])\<lparr>inbox := Reply 1 ok # []\<rparr>) 5556 ''127.0.0.1''
              ''10.0.0.1'' =
            (Returns ok, Some (Raises (KeyError ''build_port'')), w') \<and>
          sent_msgs (added (fresh []) w') = [start_request ''10.0.0.1'']"
    by (rule conjunct2 [THEN conjunct2, THEN conjunct2, THEN conjunct2])
  ultimately show ?thesis
    using r a p unfolding x by (intro conjI)
qed

text \<open>
  The claim as the specification words it fails twice. With a daemon that cannot be
  reached, \<open>launch_build\<close> does not fail: the request is sent and the call never
  returns. On a start reply that has no \<open>build_port\<close>, \<open>launch_build\<close> returns the
  reply as its result and starts the keep-alive thread on it.
\<close>

theorem launch_build_waits_or_accepts:
  "launch_build (fresh []) 5556 ''127.0.0.1'' ''10.0.0.1'' =
     (Blocks,
      (fresh [])
        \<lparr>trace := [(0, Connect ''tcp://127.0.0.1:5556''),
                   (0, Send [(''type'', JStr ''start_build''),
                             (''controller_address'', JStr ''10.0.0.1'')])],
         awaiting := True\<rparr>,
      None) \<and>
   getitem ok ''build_port'' = Inl (KeyError ''build_port'') \<and>
   launch_build (fresh [Reply 1 ok]) 5556 ''127.0.0.1'' ''10.0.0.1'' =
     (Returns ok,
      (fresh [])
        \<lparr>clock := 1,
         trace := [(0, Connect ''tcp://127.0.0.1:5556''),
                   (0, Send [(''type'', JStr ''start_build''),
                             (''controller_address'', JStr ''10.0.0.1'')]),
                   (1, Recv ok)]\<rparr>,
      Some ok)"
proof -
  have p: "getitem ok ''build_port'' = Inl (KeyError ''build_port'')"
    by (simp add: getitem_def ok_def)
  have e: "inbox (fresh []) = []" by (simp add: fresh_def)
  have i: "inbox (fresh [Reply 1 ok]) = Reply 1 ok # []" by (simp add: fresh_def)
  from p launch_build_silent [OF fresh_accepts e, of "''10.0.0.1''"]
    launch_build_reply [OF fresh_accepts i, of "''10.0.0.1''"]
  show ?thesis
    by (simp add: fresh_def str_int_def start_request_def)
qed

section \<open>The caller and the keep-alive thread side by side\<close>

lemma launched_eq:
  "launched msgs =
     \<lparr>clock = 1,
      trace = [(0, Connect ''tcp://127.0.0.1:5556''),
               (0, Send [(''type'', JStr ''start_build''),
                         (''controller_address'', JStr ''10.0.0.1'')]),
               (1, Recv info5557)],
      inbox = msgs, awaiting = False,
      accepts = (\<lambda>url. url = ''tcp://127.0.0.1:5556'')\<rparr>"
proof -
  have i: "inbox (fresh (Reply 1 info5557 # msgs)) = Reply 1 info5557 # msgs"
    by (simp add: fresh_def)
  show ?thesis
    unfolding launched_def launch_build_reply [OF fresh_accepts i]
    by (simp add: fresh_def str_int_def start_request_def)
qed
















text \<open>
  An instance on the socket of the scenario, as \<open>launch_build\<close> has left it: that
  socket with a given inbox is the socket launched with that inbox to come.
\<close>

lemma launched_inbox: "(launched msgs)\<lparr>inbox := msgs'\<rparr> = launched msgs'"
  by (simp add: launched_eq)



end
